theory Spec2Isabelle
  imports
    Complex_Main
    "HOL-Library.Char_ord"
    "HOL-Library.List_Lexorder"
    "HOL-Library.Product_Lexorder"
    "HOL-Library.Multiset"
begin

section \<open>Text: code points, character classes, regular-expression substitutions\<close>

text \<open>
  A Python \<open>str\<close> is a sequence of code points. The model is \<open>string\<close> with every
  \<open>char\<close> read as one code point in the range U+0000 to U+00FF; the character classes
  below are Python's on that range (\<open>str.isspace\<close>, \<open>str.isalnum\<close>, \<open>str.lower\<close>,
  and the classes \<open>\w\<close> and \<open>\d\<close> of \<open>re\<close> on \<open>str\<close> patterns). Code points above
  U+00FF are outside the model.
\<close>

definition cp :: "char \<Rightarrow> nat" where
  "cp c = of_char c"

text \<open>\<open>str.strip()\<close> removes the characters for which \<open>str.isspace\<close> holds.\<close>

definition is_space :: "char \<Rightarrow> bool" where
  "is_space c \<longleftrightarrow> (9 \<le> cp c \<and> cp c \<le> 13) \<or> (28 \<le> cp c \<and> cp c \<le> 32) \<or> cp c = 133 \<or> cp c = 160"

text \<open>\<open>\d\<close>: the decimal digits.\<close>

definition is_digit :: "char \<Rightarrow> bool" where
  "is_digit c \<longleftrightarrow> 48 \<le> cp c \<and> cp c \<le> 57"

text \<open>
  \<open>str.isalnum\<close>: letters, decimal digits, and the code points with a digit or numeric
  value (superscript digits, vulgar fractions).
\<close>

definition is_alnum :: "char \<Rightarrow> bool" where
  "is_alnum c \<longleftrightarrow>
     (48 \<le> cp c \<and> cp c \<le> 57) \<or> (65 \<le> cp c \<and> cp c \<le> 90) \<or> (97 \<le> cp c \<and> cp c \<le> 122)
     \<or> cp c = 170 \<or> cp c = 178 \<or> cp c = 179 \<or> cp c = 181 \<or> cp c = 185 \<or> cp c = 186
     \<or> (188 \<le> cp c \<and> cp c \<le> 190)
     \<or> (192 \<le> cp c \<and> cp c \<le> 214) \<or> (216 \<le> cp c \<and> cp c \<le> 246) \<or> 248 \<le> cp c"

text \<open>\<open>\w\<close>: alphanumeric or the underscore.\<close>

definition is_word :: "char \<Rightarrow> bool" where
  "is_word c \<longleftrightarrow> is_alnum c \<or> c = CHR ''_''"

definition lower_char :: "char \<Rightarrow> char" where
  "lower_char c =
     (if (65 \<le> cp c \<and> cp c \<le> 90) \<or> (192 \<le> cp c \<and> cp c \<le> 214) \<or> (216 \<le> cp c \<and> cp c \<le> 222)
      then char_of (cp c + 32) else c)"

definition lower :: "string \<Rightarrow> string" where
  "lower s = map lower_char s"

text \<open>\<open>s.strip(chars)\<close>: drop the characters of the class from both ends.\<close>

definition strip_by :: "(char \<Rightarrow> bool) \<Rightarrow> string \<Rightarrow> string" where
  "strip_by P s = rev (dropWhile P (rev (dropWhile P s)))"

definition strip :: "string \<Rightarrow> string" where
  "strip s = strip_by is_space s"

text \<open>
  \<open>re.sub(r"C+", "_", s)\<close> for a character class \<open>C\<close>: every maximal run of characters of
  the class becomes one underscore. The flag says that the scan is inside a run.
\<close>

fun sub_runs :: "(char \<Rightarrow> bool) \<Rightarrow> bool \<Rightarrow> string \<Rightarrow> string" where
  "sub_runs P r [] = []"
| "sub_runs P r (c # cs) =
     (if P c then (if r then sub_runs P True cs else CHR ''_'' # sub_runs P True cs)
      else c # sub_runs P False cs)"

definition is_us :: "char \<Rightarrow> bool" where
  "is_us c \<longleftrightarrow> c = CHR ''_''"

subsection \<open>norm_col\<close>

text \<open>
  \<^verbatim>\<open>
  def norm_col(name):
      s = str(name).strip().lower()
      s = re.sub(r"[^\w]+", "_", s)
      s = re.sub(r"_+", "_", s).strip("_")
      return s
  \<close>
\<close>

definition norm_col :: "string \<Rightarrow> string" where
  "norm_col name =
     (let s = lower (strip name);
          s = sub_runs (\<lambda>c. \<not> is_word c) False s;
          s = strip_by is_us (sub_runs is_us False s)
      in s)"


subsection \<open>Synonym tables and target columns\<close>

text \<open>\<open>SOURCE_TO_TARGET\<close> of \<open>clean_lca_xlsx_to_csv.py\<close>, in source order.\<close>

definition SOURCE_TO_TARGET :: "(string \<times> string) list" where
  "SOURCE_TO_TARGET =
    [(''case_number'', ''case_number''), (''case_no'', ''case_number''),
     (''case_status'', ''case_status''), (''status'', ''case_status''),
     (''received_date'', ''received_date''), (''case_received_date'', ''received_date''),
     (''decision_date'', ''decision_date''), (''case_decision_date'', ''decision_date''),
     (''original_cert_date'', ''decision_date''),
     (''employer_name'', ''employer_name''), (''employer'', ''employer_name''),
     (''employer_company_name'', ''employer_name''),
     (''job_title'', ''job_title''), (''jobtitle'', ''job_title''),
     (''soc_code'', ''soc_code''), (''soc'', ''soc_code''),
     (''soc_title'', ''soc_title''),
     (''worksite_city'', ''worksite_city''), (''employer_city'', ''worksite_city''),
     (''worksite_state'', ''worksite_state''), (''employer_state'', ''worksite_state''),
     (''wage_rate_of_pay_from'', ''wage_rate_from''), (''wage_rate_from'', ''wage_rate_from''),
     (''wage_rate_of_pay_to'', ''wage_rate_to''), (''wage_rate_to'', ''wage_rate_to''),
     (''wage_unit_of_pay'', ''wage_unit''), (''wage_unit'', ''wage_unit'')]"

text \<open>\<open>SOURCE_TO_TARGET\<close> of \<open>backfill_clean_all.py\<close>: the same table with fewer synonyms.\<close>

definition bf_SOURCE_TO_TARGET :: "(string \<times> string) list" where
  "bf_SOURCE_TO_TARGET =
    [(''case_number'', ''case_number''), (''case_no'', ''case_number''),
     (''case_status'', ''case_status''), (''status'', ''case_status''),
     (''received_date'', ''received_date''), (''case_received_date'', ''received_date''),
     (''decision_date'', ''decision_date''), (''case_decision_date'', ''decision_date''),
     (''original_cert_date'', ''decision_date''),
     (''employer_name'', ''employer_name''), (''employer'', ''employer_name''),
     (''job_title'', ''job_title''), (''jobtitle'', ''job_title''),
     (''soc_code'', ''soc_code''), (''soc'', ''soc_code''),
     (''soc_title'', ''soc_title''),
     (''worksite_city'', ''worksite_city''),
     (''worksite_state'', ''worksite_state''),
     (''wage_rate_of_pay_from'', ''wage_rate_from''), (''wage_rate_from'', ''wage_rate_from''),
     (''wage_rate_of_pay_to'', ''wage_rate_to''), (''wage_rate_to'', ''wage_rate_to''),
     (''wage_unit_of_pay'', ''wage_unit''), (''wage_unit'', ''wage_unit'')]"

subsection \<open>Wage unit and wage factors\<close>

text \<open>
  Numbers are Python floats in the source. A finite float is modelled by the rational it
  stands for and NaN, the missing value of a numeric column, by \<open>None\<close>; rounding error,
  overflow and infinities are outside the model.
\<close>

definition WAGE_FACTORS :: "(string \<times> rat) list" where
  "WAGE_FACTORS =
    [(''year'', 1), (''yr'', 1), (''annual'', 1),
     (''hour'', 2080), (''hr'', 2080),
     (''week'', 52), (''wk'', 52),
     (''bi_weekly'', 26), (''biweekly'', 26),
     (''semi_monthly'', 24), (''semimonthly'', 24),
     (''month'', 12), (''mo'', 12),
     (''day'', 260), (''daily'', 260)]"

text \<open>
  The argument of \<open>normalize_wage_unit\<close> is any Python value: \<open>None\<close>, the float NaN,
  pandas' \<open>pd.NA\<close> (the missing value of a \<open>string\<close> column), or a string.
  \<open>py_str\<close> is \<open>str(u)\<close>.
\<close>

datatype pyval = PyNone | FloatNaN | PdNA | Str string

fun py_str :: "pyval \<Rightarrow> string" where
  "py_str PyNone = ''None''"
| "py_str FloatNaN = ''nan''"
| "py_str PdNA = ''<NA>''"
| "py_str (Str s) = s"

text \<open>The token of \<open>normalize_wage_unit\<close> before the table of spellings (its lines 195 to 197).\<close>

definition unit_token :: "pyval \<Rightarrow> string" where
  "unit_token u =
     (let s = lower (strip (py_str u));
          s = sub_runs (\<lambda>c. \<not> is_word c) False s;
          s = strip_by is_us (sub_runs is_us False s)
      in s)"

text \<open>The spellings that \<open>normalize_wage_unit\<close> recognizes, in source order.\<close>

definition recognized_units :: "string list" where
  "recognized_units =
    [''bi_weekly'', ''biweekly'', ''semi_monthly'', ''semi_month'', ''hour'', ''hr'', ''per_hour'',
     ''week'', ''wk'', ''per_week'', ''month'', ''mo'', ''per_month'',
     ''year'', ''yr'', ''per_year'', ''annual'', ''day'', ''daily'', ''per_day'']"

definition normalize_wage_unit :: "pyval \<Rightarrow> string option" where
  "normalize_wage_unit u =
     (if u = PyNone \<or> u = FloatNaN then None
      else let s = unit_token u in
        if s \<in> set [''bi_weekly'', ''biweekly''] then Some ''bi_weekly''
        else if s \<in> set [''semi_monthly'', ''semi_month''] then Some ''semi_monthly''
        else if s \<in> set [''hour'', ''hr'', ''per_hour''] then Some ''hour''
        else if s \<in> set [''week'', ''wk'', ''per_week''] then Some ''week''
        else if s \<in> set [''month'', ''mo'', ''per_month''] then Some ''month''
        else if s \<in> set [''year'', ''yr'', ''per_year'', ''annual''] then Some ''year''
        else if s \<in> set [''day'', ''daily'', ''per_day''] then Some ''day''
        else if s = [] then None else Some s)"

text \<open>A cell of a \<open>string\<close> column: a string, or \<open>pd.NA\<close> (\<open>None\<close>).\<close>

type_synonym cell = "string option"

definition cell_val :: "cell \<Rightarrow> pyval" where
  "cell_val c = (case c of None \<Rightarrow> PdNA | Some s \<Rightarrow> Str s)"

text \<open>
  \<open>unit_norm.map(lambda x: WAGE_FACTORS.get(str(x), np.nan))\<close> on one cell of
  \<open>unit_norm\<close>: the key is \<open>str(x)\<close>, also for a missing cell.
\<close>

definition wage_factor :: "cell \<Rightarrow> rat option" where
  "wage_factor x = map_of WAGE_FACTORS (py_str (cell_val x))"

text \<open>Float multiplication: NaN propagates.\<close>

definition fmul :: "rat option \<Rightarrow> rat option \<Rightarrow> rat option" where
  "fmul a b = (case a of None \<Rightarrow> None | Some x \<Rightarrow> (case b of None \<Rightarrow> None | Some y \<Rightarrow> Some (x * y)))"

text \<open>
  The base value of one row, for each strategy of \<open>compute_wage_annual\<close>
  (\<open>clean_lca_xlsx_to_csv.py\<close>): under \<open>avg\<close> the base starts as \<open>wage_from\<close> and is
  overwritten by the average where both are present; under \<open>max\<close> it is the row maximum
  that skips missing values; otherwise it is \<open>wage_from\<close> where present, else \<open>wage_to\<close>.
\<close>

definition base_value :: "string \<Rightarrow> rat option \<Rightarrow> rat option \<Rightarrow> rat option" where
  "base_value strategy wage_from wage_to =
     (if strategy = ''avg'' then
        (case wage_from of
           None \<Rightarrow> None
         | Some a \<Rightarrow> (case wage_to of None \<Rightarrow> Some a | Some b \<Rightarrow> Some ((a + b) / 2)))
      else if strategy = ''max'' then
        (case wage_from of
           None \<Rightarrow> wage_to
         | Some a \<Rightarrow> (case wage_to of None \<Rightarrow> Some a | Some b \<Rightarrow> Some (max a b)))
      else
        (case wage_from of None \<Rightarrow> wage_to | Some a \<Rightarrow> Some a))"

text \<open>
  \<open>annual.where(annual.isna() | ((annual >= 1000) & (annual <= 5_000_000)), np.nan)\<close>.
\<close>

definition guardrail :: "rat option \<Rightarrow> rat option" where
  "guardrail annual =
     (case annual of
        None \<Rightarrow> None
      | Some x \<Rightarrow> if 1000 \<le> x \<and> x \<le> 5000000 then Some x else None)"

definition annual_row :: "string \<Rightarrow> rat option \<Rightarrow> rat option \<Rightarrow> cell \<Rightarrow> rat option" where
  "annual_row strategy wage_from wage_to wage_unit =
     (let unit_norm = normalize_wage_unit (cell_val wage_unit);
          base = base_value strategy wage_from wage_to;
          factors = wage_factor unit_norm;
          annual = fmul base factors
      in guardrail annual)"

text \<open>The three columns are columns of one frame; the result has one value per row.\<close>

definition compute_wage_annual ::
  "rat option list \<Rightarrow> rat option list \<Rightarrow> cell list \<Rightarrow> string \<Rightarrow> rat option list" where
  "compute_wage_annual wage_from wage_to wage_unit strategy =
     map (\<lambda>(f, t, u). annual_row strategy f t u) (zip wage_from (zip wage_to wage_unit))"




subsection \<open>Frames and duplicate columns\<close>

text \<open>
  A frame as read from a sheet with \<open>dtype="string"\<close>: the number of rows and the
  columns from left to right, each a label with its cells. Labels may repeat (after
  renaming). In a well-formed frame every column has one cell per row.
\<close>

record frame =
  nrows :: nat
  cols :: "(string \<times> cell list) list"


text \<open>
  \<open>df.rename(columns=rename_map)\<close>, where \<open>rename_map\<close> sends a label \<open>c\<close> to
  \<open>SOURCE_TO_TARGET[norm_col(c)]\<close> when that key exists; other labels stay.
\<close>

definition rename_label :: "(string \<times> string) list \<Rightarrow> string \<Rightarrow> string" where
  "rename_label table c = (case map_of table (norm_col c) of Some t \<Rightarrow> t | None \<Rightarrow> c)"

definition rename_columns :: "(string \<times> string) list \<Rightarrow> frame \<Rightarrow> frame" where
  "rename_columns table df = df\<lparr>cols := map (\<lambda>col. (rename_label table (fst col), snd col)) (cols df)\<rparr>"

text \<open>\<open>pd.unique\<close>: the distinct values in first-seen order.\<close>

fun unique_acc :: "string list \<Rightarrow> string list \<Rightarrow> string list" where
  "unique_acc seen [] = []"
| "unique_acc seen (x # xs) =
     (if x \<in> set seen then unique_acc seen xs else x # unique_acc (x # seen) xs)"

definition unique :: "string list \<Rightarrow> string list" where
  "unique xs = unique_acc [] xs"

text \<open>
  \<open>cols.bfill(axis=1).iloc[:, 0]\<close>: filling backwards along a row puts into each missing
  cell the next present value to its right; the first column of the filled block is kept.
  \<open>fill_from\<close> fills one column from the (already filled) column to its right.
\<close>

definition fill_from :: "cell list \<Rightarrow> cell list \<Rightarrow> cell list" where
  "fill_from c right = map (\<lambda>(x, y). case x of None \<Rightarrow> y | Some v \<Rightarrow> Some v) (zip c right)"

fun bfill_axis1 :: "cell list list \<Rightarrow> cell list list" where
  "bfill_axis1 [] = []"
| "bfill_axis1 [c] = [c]"
| "bfill_axis1 (c # d # cs) = (let r = bfill_axis1 (d # cs) in fill_from c (hd r) # r)"

definition select_label :: "string \<Rightarrow> (string \<times> cell list) list \<Rightarrow> cell list list" where
  "select_label name cs = map snd (filter (\<lambda>col. fst col = name) cs)"

text \<open>
  \<^verbatim>\<open>
  def coalesce_duplicate_columns(df):
      if df.columns.is_unique:
          return df
      out = {}
      for name in pd.unique(df.columns):
          cols = df.loc[:, df.columns == name]
          if isinstance(cols, pd.Series):
              out[name] = cols
          else:
              out[name] = cols.bfill(axis=1).iloc[:, 0]
      return pd.DataFrame(out)
  \<close>
  The selection by a boolean mask is always a frame, so the second branch is the one taken;
  \<open>name\<close> is a label of the frame, so the selection has at least one column.
\<close>

definition coalesce_duplicate_columns :: "frame \<Rightarrow> frame" where
  "coalesce_duplicate_columns df =
     (if distinct (map fst (cols df)) then df
      else df\<lparr>cols := map (\<lambda>name. (name, hd (bfill_axis1 (select_label name (cols df)))))
                         (unique (map fst (cols df)))\<rparr>)"


subsection \<open>Field cleaners\<close>





subsection \<open>Dates\<close>

text \<open>
  A timestamp of a \<open>datetime64[ns]\<close> column is a count of nanoseconds since 1970-01-01;
  \<open>NaT\<close> is \<open>None\<close>. Its calendar date is found by walking whole years, then whole
  months, from 1601-01-01, which is 134774 days before 1970-01-01 and earlier than every
  timestamp pandas can hold.
\<close>

type_synonym timestamp = int













definition digits_val :: "string \<Rightarrow> nat" where
  "digits_val t = foldl (\<lambda>a c. 10 * a + (cp c - 48)) 0 t"




subsection \<open>The cleaning pipeline\<close>

text \<open>
  The target columns of one cleaned row. \<open>worksite_state\<close>, a text column that is also
  upper-cased, is left out: nothing below depends on it.
\<close>

record canon =
  case_number :: cell
  case_status :: cell
  received_date :: "timestamp option"
  decision_date :: "timestamp option"
  employer_name :: cell
  job_title :: cell
  soc_code :: cell
  soc_title :: cell
  worksite_city :: cell
  wage_rate_from :: "rat option"
  wage_rate_to :: "rat option"
  wage_unit :: cell
  wage_annual :: "rat option"
  year :: "int option"


text \<open>The frame after renaming and coalescing (the first lines of the cleaner).\<close>

definition mapped_frame :: "(string \<times> string) list \<Rightarrow> frame \<Rightarrow> frame" where
  "mapped_frame table df = coalesce_duplicate_columns (rename_columns table df)"







subsection \<open>Header resolver\<close>

text \<open>
  \<^verbatim>\<open>
  def infer_usecols_from_xlsx(path, sheet=0):
      try:
          header_df = pd.read_excel(path, sheet_name=sheet, nrows=0, engine="openpyxl")
          original_cols = list(header_df.columns)
      except Exception:
          return None, {}
      norm_map = {c: norm_col(c) for c in original_cols}
      needed_norm_sources = set(SOURCE_TO_TARGET.keys())
      keep_cols = [c for c in original_cols if norm_map.get(c) in needed_norm_sources]
      if not keep_cols:
          return None, norm_map
      return keep_cols, norm_map
  \<close>
  Reading the header row is input: it either raises (\<open>None\<close>) or gives the labels. The
  first component of the result is \<open>usecols\<close>, where \<open>None\<close> tells the reader to read all
  columns; the second is \<open>norm_map\<close> as the list of its items.
\<close>

definition infer_usecols_from_xlsx ::
  "string list option \<Rightarrow> string list option \<times> (string \<times> string) list" where
  "infer_usecols_from_xlsx header =
     (case header of
        None \<Rightarrow> (None, [])
      | Some original_cols \<Rightarrow>
          (let norm_map = map (\<lambda>c. (c, norm_col c)) original_cols;
               keep_cols = filter (\<lambda>c. norm_col c \<in> set (map fst SOURCE_TO_TARGET)) original_cols
           in if keep_cols = [] then (None, norm_map) else (Some keep_cols, norm_map)))"

text \<open>The same function in \<open>backfill_clean_all.py\<close> returns \<open>keep or None\<close>.\<close>

definition bf_infer_usecols_from_xlsx :: "string list option \<Rightarrow> string list option" where
  "bf_infer_usecols_from_xlsx header =
     (case header of
        None \<Rightarrow> None
      | Some header_cols \<Rightarrow>
          (let keep = filter (\<lambda>c. norm_col c \<in> set (map fst bf_SOURCE_TO_TARGET)) header_cols
           in if keep = [] then None else Some keep))"

subsection \<open>Fiscal year, quarter and the processing order\<close>

text \<open>
  \<^verbatim>\<open>
  def parse_fy_q(filename):
      m = re.search(r"FY(\d{4})_Q([1-4])", filename, flags=re.IGNORECASE)
      if not m:
          return None, None
      return int(m.group(1)), int(m.group(2))
  \<close>
  \<open>match_fy_q\<close> matches the pattern at the start of a string; \<open>search_fy_q\<close> is
  \<open>re.search\<close>: the leftmost position where it matches.
\<close>

fun match_fy_q :: "string \<Rightarrow> (int \<times> int) option" where
  "match_fy_q (f # y # d1 # d2 # d3 # d4 # u # q # k # rest) =
     (if (f = CHR ''F'' \<or> f = CHR ''f'') \<and> (y = CHR ''Y'' \<or> y = CHR ''y'')
         \<and> is_digit d1 \<and> is_digit d2 \<and> is_digit d3 \<and> is_digit d4
         \<and> u = CHR ''_'' \<and> (q = CHR ''Q'' \<or> q = CHR ''q'')
         \<and> 49 \<le> cp k \<and> cp k \<le> 52
      then Some (int (digits_val [d1, d2, d3, d4]), int (digits_val [k]))
      else None)"
| "match_fy_q s = None"

fun search_fy_q :: "string \<Rightarrow> (int \<times> int) option" where
  "search_fy_q [] = None"
| "search_fy_q (c # cs) =
     (case match_fy_q (c # cs) of Some r \<Rightarrow> Some r | None \<Rightarrow> search_fy_q cs)"

definition parse_fy_q :: "string \<Rightarrow> int option \<times> int option" where
  "parse_fy_q filename =
     (case search_fy_q filename of None \<Rightarrow> (None, None) | Some (fy, q) \<Rightarrow> (Some fy, Some q))"

text \<open>
  \<^verbatim>\<open>
  def sort_key(f):
      fy, q = parse_fy_q(f)
      return (fy if fy is not None else 9999, q if q is not None else 9, f)
  files.sort(key=sort_key)
  \<close>
  Tuples compare lexicographically and strings by code point, as the orders on products
  and lists do here. \<open>list.sort\<close> is a stable sort by key.
\<close>

definition sort_key_file :: "string \<Rightarrow> int \<times> int \<times> string" where
  "sort_key_file f =
     (case parse_fy_q f of (fy, q) \<Rightarrow>
        (case fy of None \<Rightarrow> 9999 | Some v \<Rightarrow> v, case q of None \<Rightarrow> 9 | Some v \<Rightarrow> v, f))"

definition sort_files :: "string list \<Rightarrow> string list" where
  "sort_files files = sort_key sort_key_file files"

text \<open>A file name has the pattern when \<open>parse_fy_q\<close> finds a fiscal year.\<close>

definition has_fy_q :: "string \<Rightarrow> bool" where
  "has_fy_q f \<longleftrightarrow> fst (parse_fy_q f) \<noteq> None"

subsection \<open>An example frame\<close>




subsection \<open>Auxiliary predicates\<close>

text \<open>A string with no two adjacent underscores.\<close>

fun collapsed :: "string \<Rightarrow> bool" where
  "collapsed (a # b # xs) = (\<not> (is_us a \<and> is_us b) \<and> collapsed (b # xs))"
| "collapsed _ = True"

section \<open>Header normalization\<close>



lemma lower_char_idem: "lower_char (lower_char c) = lower_char c"
  by (auto simp: lower_char_def cp_def)

lemma word_not_space: "is_word c \<Longrightarrow> \<not> is_space c"
  by (auto simp: is_word_def is_alnum_def is_space_def cp_def)

lemma sub_runs_set: "x \<in> set (sub_runs P r xs) \<Longrightarrow> x = CHR ''_'' \<or> (x \<in> set xs \<and> \<not> P x)"
  by (induction xs arbitrary: r) (auto split: if_splits)

lemma sub_runs_id: "\<forall>c\<in>set xs. \<not> P c \<Longrightarrow> sub_runs P r xs = xs"
  by (induction xs arbitrary: r) auto

lemma sub_runs_us_head: "sub_runs is_us True xs = [] \<or> \<not> is_us (hd (sub_runs is_us True xs))"
  by (induction xs) auto

lemma sub_runs_collapsed: "collapsed (sub_runs is_us r xs)"
proof (induction xs arbitrary: r)
  case Nil show ?case by simp
next
  case (Cons c cs)
  show ?case
  proof (cases "is_us c")
    case True
    have h: "sub_runs is_us True cs = [] \<or> \<not> is_us (hd (sub_runs is_us True cs))" by (rule sub_runs_us_head)
    show ?thesis using True Cons[of True] h by (cases "sub_runs is_us True cs") auto
  next
    case False
    show ?thesis using False Cons[of False] by (cases "sub_runs is_us False cs") auto
  qed
qed

lemma collapsed_id: "collapsed xs \<Longrightarrow> sub_runs is_us False xs = xs"
proof (induction xs rule: collapsed.induct)
  case (1 a b xs)
  then show ?case by (auto simp: is_us_def)
qed (auto simp: is_us_def)


lemma rstrip_decomp: "rev (dropWhile P (rev xs)) @ rev (takeWhile P (rev xs)) = xs"
proof -
  have "rev (dropWhile P (rev xs)) @ rev (takeWhile P (rev xs))
        = rev (takeWhile P (rev xs) @ dropWhile P (rev xs))"
    by (simp only: rev_append)
  also have "\<dots> = xs" by (simp only: takeWhile_dropWhile_id rev_rev_ident)
  finally show ?thesis .
qed

lemma strip_by_decomp: "\<exists>pre post. s = pre @ strip_by P s @ post"
proof -
  have 1: "s = takeWhile P s @ dropWhile P s" by simp
  have 2: "dropWhile P s = strip_by P s @ rev (takeWhile P (rev (dropWhile P s)))"
    unfolding strip_by_def by (rule rstrip_decomp [symmetric])
  show ?thesis using 1 2 by metis
qed

lemma strip_by_set: "set (strip_by P s) \<subseteq> set s"
proof -
  obtain pre post where "s = pre @ strip_by P s @ post" using strip_by_decomp by blast
  then have "set s = set pre \<union> set (strip_by P s) \<union> set post" by (metis set_append Un_assoc)
  then show ?thesis by blast
qed

lemma strip_by_hd: "strip_by P s \<noteq> [] \<Longrightarrow> \<not> P (hd (strip_by P s))"
proof -
  assume ne: "strip_by P s \<noteq> []"
  let ?d = "dropWhile P s"
  have dne: "?d \<noteq> []"
  proof
    assume "?d = []"
    then have "strip_by P s = []" by (simp only: strip_by_def rev.simps dropWhile.simps)
    then show False using ne by simp
  qed
  have hdd: "\<not> P (hd ?d)" using dne by (rule hd_dropWhile)
  have "?d = strip_by P s @ rev (takeWhile P (rev ?d))"
    unfolding strip_by_def by (rule rstrip_decomp [symmetric])
  then have "hd ?d = hd (strip_by P s)" using ne by (metis hd_append2)
  then show ?thesis using hdd by simp
qed

lemma strip_by_last: "strip_by P s \<noteq> [] \<Longrightarrow> \<not> P (last (strip_by P s))"
proof -
  assume ne: "strip_by P s \<noteq> []"
  let ?e = "dropWhile P (rev (dropWhile P s))"
  have ene: "?e \<noteq> []" using ne by (simp add: strip_by_def)
  have "\<not> P (hd ?e)" using ene by (rule hd_dropWhile)
  moreover have "last (rev ?e) = hd ?e" using ene by (simp add: last_rev)
  ultimately show ?thesis by (simp add: strip_by_def)
qed

lemma dropWhile_id: "xs = [] \<or> \<not> P (hd xs) \<Longrightarrow> dropWhile P xs = xs"
  by (cases xs) auto

lemma strip_by_id: "s = [] \<or> (\<not> P (hd s) \<and> \<not> P (last s)) \<Longrightarrow> strip_by P s = s"
proof (cases "s = []")
  case True then show ?thesis by (simp add: strip_by_def)
next
  case False
  assume "s = [] \<or> (\<not> P (hd s) \<and> \<not> P (last s))"
  then have h: "\<not> P (hd s)" and l: "\<not> P (last s)" using False by auto
  have 1: "dropWhile P s = s" using h by (simp add: dropWhile_id)
  have "hd (rev s) = last s" using False by (simp add: hd_rev)
  then have 2: "dropWhile P (rev s) = rev s" using l by (simp add: dropWhile_id)
  show ?thesis by (simp add: strip_by_def 1 2)
qed

lemma collapsed_append: "collapsed (xs @ ys) \<Longrightarrow> collapsed xs \<and> collapsed ys"
proof (induction xs)
  case Nil
  then show ?case by simp
next
  case (Cons a xs)
  note prems = Cons.prems and IH = Cons.IH
  show ?case
  proof (cases xs)
    case Nil
    then show ?thesis using prems by (cases ys) auto
  next
    case (Cons b zs)
    then show ?thesis using prems IH by auto
  qed
qed

lemma collapsed_strip_by: "collapsed s \<Longrightarrow> collapsed (strip_by P s)"
proof -
  assume c: "collapsed s"
  obtain pre post where "s = pre @ strip_by P s @ post" using strip_by_decomp by blast
  then have "collapsed (pre @ strip_by P s @ post)" using c by simp
  then have "collapsed (strip_by P s @ post)" using collapsed_append by blast
  then show ?thesis using collapsed_append by blast
qed

lemma norm_col_chars:
  assumes "c \<in> set (norm_col name)"
  shows "is_word c \<and> lower_char c = c"
proof -
  let ?s1 = "lower (strip name)"
  let ?s2 = "sub_runs (\<lambda>c. \<not> is_word c) False ?s1"
  let ?s3 = "sub_runs is_us False ?s2"
  have "c \<in> set ?s3" using assms strip_by_set by (auto simp: norm_col_def Let_def)
  then have "c = CHR ''_'' \<or> c \<in> set ?s2" using sub_runs_set by fastforce
  then have "c = CHR ''_'' \<or> (c \<in> set ?s1 \<and> is_word c)" using sub_runs_set by fastforce
  moreover have "c \<in> set ?s1 \<Longrightarrow> lower_char c = c"
    by (auto simp: lower_def lower_char_idem)
  moreover have "is_word (CHR ''_'')" by (simp add: is_word_def)
  moreover have "lower_char (CHR ''_'') = CHR ''_''" by (simp add: lower_char_def cp_def)
  ultimately show ?thesis by auto
qed

text \<open>
  C7. Header normalization is idempotent: for every string, \<open>norm_col\<close> applied to the
  result of \<open>norm_col\<close> returns the same token as \<open>norm_col\<close> applied once.
\<close>

theorem norm_col_idempotent: "norm_col (norm_col name) = norm_col name"
proof -
  let ?t = "norm_col name"
  have chars: "\<forall>c\<in>set ?t. is_word c \<and> lower_char c = c" using norm_col_chars by blast
  have coll: "collapsed ?t"
    unfolding norm_col_def Let_def by (rule collapsed_strip_by) (rule sub_runs_collapsed)
  have ends: "?t = [] \<or> (\<not> is_us (hd ?t) \<and> \<not> is_us (last ?t))"
    unfolding norm_col_def Let_def using strip_by_hd strip_by_last by blast
  have ends_sp: "?t = [] \<or> (\<not> is_space (hd ?t) \<and> \<not> is_space (last ?t))"
  proof (cases "?t = []")
    case True then show ?thesis by simp
  next
    case False
    then have "hd ?t \<in> set ?t" "last ?t \<in> set ?t" by simp_all
    then show ?thesis using chars word_not_space by blast
  qed
  have 1: "strip ?t = ?t" unfolding strip_def using ends_sp by (rule strip_by_id)
  have 2: "lower ?t = ?t" unfolding lower_def using chars by (simp add: map_idI)
  have 3: "sub_runs (\<lambda>c. \<not> is_word c) False ?t = ?t" using chars by (simp add: sub_runs_id)
  have 4: "sub_runs is_us False ?t = ?t" using coll by (rule collapsed_id)
  have 5: "strip_by is_us ?t = ?t" using ends by (rule strip_by_id)
  have "norm_col ?t = strip_by is_us (sub_runs is_us False (sub_runs (\<lambda>c. \<not> is_word c) False (lower (strip ?t))))"
    by (simp add: norm_col_def Let_def)
  then show ?thesis by (simp only: 1 2 3 4 5)
qed

section \<open>Header resolver\<close>

text \<open>
  C8. When no raw header has a normalized form in the synonym table, or when reading the
  header row itself fails, the resolver answers "read all columns" (\<open>None\<close>), in both
  scripts; it never answers with an empty column set.
\<close>

theorem infer_usecols_fail_open:
  "fst (infer_usecols_from_xlsx None) = None
   \<and> bf_infer_usecols_from_xlsx None = None
   \<and> ((\<forall>c\<in>set header. norm_col c \<notin> set (map fst SOURCE_TO_TARGET))
        \<longrightarrow> fst (infer_usecols_from_xlsx (Some header)) = None)
   \<and> ((\<forall>c\<in>set header. norm_col c \<notin> set (map fst bf_SOURCE_TO_TARGET))
        \<longrightarrow> bf_infer_usecols_from_xlsx (Some header) = None)
   \<and> fst (infer_usecols_from_xlsx h) \<noteq> Some []
   \<and> bf_infer_usecols_from_xlsx h \<noteq> Some []"
proof -
  have 1: "(\<forall>c\<in>set header. norm_col c \<notin> set (map fst SOURCE_TO_TARGET))
        \<longrightarrow> fst (infer_usecols_from_xlsx (Some header)) = None"
    by (simp add: infer_usecols_from_xlsx_def Let_def filter_empty_conv)
  have 2: "(\<forall>c\<in>set header. norm_col c \<notin> set (map fst bf_SOURCE_TO_TARGET))
        \<longrightarrow> bf_infer_usecols_from_xlsx (Some header) = None"
    by (simp add: bf_infer_usecols_from_xlsx_def Let_def filter_empty_conv)
  have 3: "fst (infer_usecols_from_xlsx h) \<noteq> Some []"
    by (cases h) (simp_all add: infer_usecols_from_xlsx_def Let_def)
  have 4: "bf_infer_usecols_from_xlsx h \<noteq> Some []"
    by (cases h) (simp_all add: bf_infer_usecols_from_xlsx_def Let_def)
  have 5: "fst (infer_usecols_from_xlsx None) = None"
    by (simp add: infer_usecols_from_xlsx_def)
  have 6: "bf_infer_usecols_from_xlsx None = None"
    by (simp add: bf_infer_usecols_from_xlsx_def)
  show ?thesis using 1 2 3 4 5 6 by blast
qed

text \<open>The theorem at a header row with no known column.\<close>

lemma norm_col_foo: "norm_col ''Foo'' = ''foo''" by code_simp
lemma norm_col_bar_baz: "norm_col ''Bar Baz'' = ''bar_baz''" by code_simp

theorem infer_usecols_fail_open_witness:
  "norm_col ''Foo'' \<notin> set (map fst SOURCE_TO_TARGET)
   \<and> norm_col ''Bar Baz'' \<notin> set (map fst SOURCE_TO_TARGET)
   \<and> norm_col ''Foo'' \<notin> set (map fst bf_SOURCE_TO_TARGET)
   \<and> norm_col ''Bar Baz'' \<notin> set (map fst bf_SOURCE_TO_TARGET)
   \<and> fst (infer_usecols_from_xlsx (Some [''Foo'', ''Bar Baz''])) = None
   \<and> bf_infer_usecols_from_xlsx (Some [''Foo'', ''Bar Baz'']) = None"
proof -
  have a: "\<forall>c\<in>set [''Foo'', ''Bar Baz'']. norm_col c \<notin> set (map fst SOURCE_TO_TARGET)"
    by (simp add: norm_col_foo norm_col_bar_baz SOURCE_TO_TARGET_def)
  have b: "\<forall>c\<in>set [''Foo'', ''Bar Baz'']. norm_col c \<notin> set (map fst bf_SOURCE_TO_TARGET)"
    by (simp add: norm_col_foo norm_col_bar_baz bf_SOURCE_TO_TARGET_def)
  show ?thesis
    using a b infer_usecols_fail_open [of "[''Foo'', ''Bar Baz'']" None] by simp
qed

section \<open>Fiscal year and quarter\<close>

lemma digit_val_le: "is_digit d \<Longrightarrow> cp d - 48 \<le> 9"
  by (auto simp: is_digit_def)

lemma match_fy_q_bounds:
  assumes "match_fy_q s = Some (fy, q)"
  shows "0 \<le> fy \<and> fy \<le> 9999 \<and> 1 \<le> q \<and> q \<le> 4"
proof (cases s rule: match_fy_q.cases)
  case (1 f y d1 d2 d3 d4 u qc k rest)
  with assms have c: "is_digit d1" "is_digit d2" "is_digit d3" "is_digit d4" "49 \<le> cp k" "cp k \<le> 52"
    and fy: "fy = int (digits_val [d1, d2, d3, d4])" and q: "q = int (digits_val [k])"
    by (auto split: if_splits)
  have "cp d1 - 48 \<le> 9" "cp d2 - 48 \<le> 9" "cp d3 - 48 \<le> 9" "cp d4 - 48 \<le> 9"
    using c digit_val_le by blast+
  then have "digits_val [d1, d2, d3, d4] \<le> 9999" by (simp add: digits_val_def)
  moreover have "1 \<le> digits_val [k] \<and> digits_val [k] \<le> 4"
  proof -
    have "digits_val [k] = cp k - 48" by (simp add: digits_val_def)
    then show ?thesis using c(5,6) by arith
  qed
  ultimately show ?thesis using fy q by simp
qed (use assms in auto)

lemma search_fy_q_bounds:
  "search_fy_q s = Some (fy, q) \<Longrightarrow> 0 \<le> fy \<and> fy \<le> 9999 \<and> 1 \<le> q \<and> q \<le> 4"
proof (induction s)
  case Nil then show ?case by simp
next
  case (Cons c cs)
  show ?case
  proof (cases "match_fy_q (c # cs)")
    case None
    with Cons show ?thesis by simp
  next
    case (Some r)
    with Cons.prems have "match_fy_q (c # cs) = Some (fy, q)" by simp
    then show ?thesis by (rule match_fy_q_bounds)
  qed
qed

lemma parse_fy_q_bounds:
  "parse_fy_q filename = (None, None)
   \<or> (\<exists>fy q. parse_fy_q filename = (Some fy, Some q) \<and> 1 \<le> q \<and> q \<le> 4 \<and> 0 \<le> fy \<and> fy \<le> 9999)"
proof (cases "search_fy_q filename")
  case None
  then show ?thesis by (simp add: parse_fy_q_def)
next
  case (Some r)
  obtain fy q where r: "r = (fy, q)" by (cases r)
  have "0 \<le> fy \<and> fy \<le> 9999 \<and> 1 \<le> q \<and> q \<le> 4"
    using Some r search_fy_q_bounds by blast
  then show ?thesis using Some r by (simp add: parse_fy_q_def)
qed

text \<open>
  C10, as the code has it. For every file name, \<open>parse_fy_q\<close> returns both a fiscal year
  and a quarter or neither; when present the quarter is between 1 and 4 and the fiscal year
  is the value of four decimal digits, so between 0 and 9999.
\<close>

theorem parse_fy_q_both_or_neither:
  "parse_fy_q filename = (None, None)
   \<or> (\<exists>fy q. parse_fy_q filename = (Some fy, Some q) \<and> 1 \<le> q \<and> q \<le> 4 \<and> 0 \<le> fy \<and> fy \<le> 9999)"
proof (cases "search_fy_q filename")
  case None
  then show ?thesis by (simp add: parse_fy_q_def)
next
  case (Some r)
  obtain fy q where r: "r = (fy, q)" by (cases r)
  have "0 \<le> fy \<and> fy \<le> 9999 \<and> 1 \<le> q \<and> q \<le> 4"
    using Some r search_fy_q_bounds by blast
  then show ?thesis using Some r by (simp add: parse_fy_q_def)
qed

text \<open>
  C10 as stated asks for a fiscal year of four digits. The pattern takes any four digits,
  leading zeros included, and \<open>int\<close> drops them: this file name gives the year 123.
\<close>

theorem parse_fy_q_three_digit_year:
  "parse_fy_q ''LCA_FY0123_Q1.xlsx'' = (Some 123, Some 1) \<and> \<not> (1000 \<le> (123::int))"
  by code_simp


section \<open>Processing order\<close>

lemma sort_key_with_pattern:
  "parse_fy_q f = (Some fy, Some q) \<Longrightarrow> sort_key_file f = (fy, q, f)"
  by (simp add: sort_key_file_def)

lemma sort_key_without_pattern:
  "\<not> has_fy_q f \<Longrightarrow> sort_key_file f = (9999, 9, f)"
  by (cases "search_fy_q f") (auto simp: sort_key_file_def has_fy_q_def parse_fy_q_def)

lemma has_fy_q_cases:
  "has_fy_q f \<Longrightarrow> \<exists>fy q. parse_fy_q f = (Some fy, Some q) \<and> fy \<le> 9999 \<and> q \<le> 4"
  using parse_fy_q_bounds [of f] by (auto simp: has_fy_q_def)

lemma sort_files_keys:
  assumes "i < j" and "j < length (sort_files files)"
  shows "sort_key_file (sort_files files ! i) \<le> sort_key_file (sort_files files ! j)"
proof -
  let ?out = "sort_files files"
  have "sorted (map sort_key_file ?out)" unfolding sort_files_def by (rule sorted_sort_key)
  moreover have "i \<le> j" "j < length (map sort_key_file ?out)" using assms by simp_all
  ultimately have "map sort_key_file ?out ! i \<le> map sort_key_file ?out ! j"
    by (rule sorted_nth_mono)
  then show ?thesis using assms by simp
qed

text \<open>
  C9. The processing order is a permutation of the matched file names in which, for any
  file \<open>a\<close> processed before a file \<open>b\<close>: if \<open>b\<close> has the year and quarter pattern
  then so has \<open>a\<close> (files without it come after all files with it); if both have it,
  the year of \<open>a\<close> is smaller, or the years are equal and the quarter of \<open>a\<close> is
  smaller, or both are equal and the name of \<open>a\<close> is not greater; if neither has it, the
  name of \<open>a\<close> is not greater. In particular a file of FY2021 Q2 is never processed
  before a file of FY2020 Q4.
\<close>

theorem sort_files_order:
  assumes "i < j" and "j < length (sort_files files)"
    and "a = sort_files files ! i" and "b = sort_files files ! j"
  shows "mset (sort_files files) = mset files
    \<and> (has_fy_q b \<longrightarrow> has_fy_q a)
    \<and> (\<forall>fa qa fb qb. parse_fy_q a = (Some fa, Some qa) \<and> parse_fy_q b = (Some fb, Some qb)
          \<longrightarrow> fa < fb \<or> (fa = fb \<and> (qa < qb \<or> (qa = qb \<and> a \<le> b))))
    \<and> (\<not> has_fy_q a \<and> \<not> has_fy_q b \<longrightarrow> a \<le> b)
    \<and> \<not> (parse_fy_q a = (Some 2021, Some 2) \<and> parse_fy_q b = (Some 2020, Some 4))"
proof -
  have le: "sort_key_file a \<le> sort_key_file b" using assms sort_files_keys by simp
  have 1: "mset (sort_files files) = mset files" by (simp add: sort_files_def)
  have 2: "has_fy_q b \<longrightarrow> has_fy_q a"
  proof (rule impI, rule ccontr)
    assume hb: "has_fy_q b" and na: "\<not> has_fy_q a"
    obtain fb qb where b: "parse_fy_q b = (Some fb, Some qb)" "fb \<le> 9999" "qb \<le> 4"
      using hb has_fy_q_cases by blast
    have "(9999, 9, a) \<le> (fb, qb, b)"
      using le sort_key_without_pattern [OF na] sort_key_with_pattern [OF b(1)] by simp
    then show False using b(2,3) by auto
  qed
  have 3: "\<forall>fa qa fb qb. parse_fy_q a = (Some fa, Some qa) \<and> parse_fy_q b = (Some fb, Some qb)
          \<longrightarrow> fa < fb \<or> (fa = fb \<and> (qa < qb \<or> (qa = qb \<and> a \<le> b)))"
  proof (intro allI impI)
    fix fa qa fb qb
    assume h: "parse_fy_q a = (Some fa, Some qa) \<and> parse_fy_q b = (Some fb, Some qb)"
    then have "(fa, qa, a) \<le> (fb, qb, b)" using le by (simp add: sort_key_with_pattern)
    then show "fa < fb \<or> (fa = fb \<and> (qa < qb \<or> (qa = qb \<and> a \<le> b)))" by auto
  qed
  have 4: "\<not> has_fy_q a \<and> \<not> has_fy_q b \<longrightarrow> a \<le> b"
  proof
    assume h: "\<not> has_fy_q a \<and> \<not> has_fy_q b"
    then have "(9999::int, 9::int, a) \<le> (9999, 9, b)" using le by (simp add: sort_key_without_pattern)
    then show "a \<le> b" by auto
  qed
  have 5: "\<not> (parse_fy_q a = (Some 2021, Some 2) \<and> parse_fy_q b = (Some 2020, Some 4))"
    using 3 by fastforce
  show ?thesis using 1 2 3 4 5 by blast
qed

text \<open>The theorem on three file names.\<close>

lemma sort_two_files:
  "sort_files [''LCA_FY2021_Q2.xlsx'', ''LCA_FY2020_Q4.xlsx'', ''notes.xlsx'']
     = [''LCA_FY2020_Q4.xlsx'', ''LCA_FY2021_Q2.xlsx'', ''notes.xlsx'']"
  by code_simp

lemma parse_2020_q4: "parse_fy_q ''LCA_FY2020_Q4.xlsx'' = (Some 2020, Some 4)" by code_simp
lemma parse_2021_q2: "parse_fy_q ''LCA_FY2021_Q2.xlsx'' = (Some 2021, Some 2)" by code_simp

theorem sort_files_order_witness:
  "sort_files [''LCA_FY2021_Q2.xlsx'', ''LCA_FY2020_Q4.xlsx'', ''notes.xlsx'']
     = [''LCA_FY2020_Q4.xlsx'', ''LCA_FY2021_Q2.xlsx'', ''notes.xlsx'']
   \<and> has_fy_q ''LCA_FY2020_Q4.xlsx''
   \<and> parse_fy_q ''LCA_FY2020_Q4.xlsx'' = (Some 2020, Some 4)
   \<and> parse_fy_q ''LCA_FY2021_Q2.xlsx'' = (Some 2021, Some 2)
   \<and> (2020::int) < 2021"
proof -
  let ?fs = "[''LCA_FY2021_Q2.xlsx'', ''LCA_FY2020_Q4.xlsx'', ''notes.xlsx'']"
  have i: "(0::nat) < 1" by simp
  have j: "1 < length (sort_files ?fs)" by (simp add: sort_two_files)
  have a: "''LCA_FY2020_Q4.xlsx'' = sort_files ?fs ! 0" by (simp add: sort_two_files)
  have b: "''LCA_FY2021_Q2.xlsx'' = sort_files ?fs ! 1" by (simp add: sort_two_files)
  have hb: "has_fy_q ''LCA_FY2021_Q2.xlsx''" by (simp add: has_fy_q_def parse_2021_q2)
  have "has_fy_q ''LCA_FY2020_Q4.xlsx''"
    using sort_files_order [OF i j a b] hb by blast
  then show ?thesis using sort_two_files parse_2020_q4 parse_2021_q2 by simp
qed

section \<open>Wage unit\<close>

lemma unit_token_semimonthly: "unit_token (Str ''semimonthly'') = ''semimonthly''"
  by code_simp

lemma normalize_semimonthly: "normalize_wage_unit (Str ''semimonthly'') = Some ''semimonthly''"
  by code_simp

lemma normalize_hour: "normalize_wage_unit (Str ''Hour'') = Some ''hour''"
  by code_simp

lemma normalize_capitals: "normalize_wage_unit (Str ''Per Annum'') = Some ''per_annum''"
  by code_simp

lemma normalize_dash: "normalize_wage_unit (Str ''-'') = None"
  by code_simp

lemma factor_semimonthly: "wage_factor (Some ''semimonthly'') = Some 24"
  by (simp add: wage_factor_def WAGE_FACTORS_def cell_val_def)

lemma factor_hour: "wage_factor (Some ''hour'') = Some 2080"
  by (simp add: wage_factor_def WAGE_FACTORS_def cell_val_def)

lemma factor_missing: "wage_factor None = None"
  by (simp add: wage_factor_def WAGE_FACTORS_def cell_val_def)

lemma factor_unrecognized:
  assumes "s \<notin> set recognized_units" and "s \<noteq> ''semimonthly''"
  shows "wage_factor (Some s) = None"
  using assms by (simp add: wage_factor_def WAGE_FACTORS_def cell_val_def recognized_units_def)

lemma normalize_unrecognized:
  assumes "u \<noteq> PyNone" and "u \<noteq> FloatNaN" and "unit_token u \<notin> set recognized_units"
  shows "normalize_wage_unit u = (if unit_token u = [] then None else Some (unit_token u))"
  using assms by (simp add: normalize_wage_unit_def recognized_units_def Let_def)

text \<open>
  C6, as the code has it. For every wage-unit value other than \<open>None\<close> and NaN whose
  normalized token is not one of the recognized spellings, \<open>normalize_wage_unit\<close> returns
  that normalized token (not the raw text), or nothing when the token is empty. Unless the
  token is \<open>semimonthly\<close>, it has no multiplier in the unit table and the annual wage of
  the row is missing, under every strategy.
\<close>

theorem unrecognized_unit:
  assumes "u \<noteq> PyNone" and "u \<noteq> FloatNaN" and "unit_token u \<notin> set recognized_units"
  shows "normalize_wage_unit u = (if unit_token u = [] then None else Some (unit_token u))
     \<and> (unit_token u \<noteq> ''semimonthly'' \<longrightarrow>
          wage_factor (normalize_wage_unit u) = None
          \<and> (\<forall>c strategy f t. cell_val c = u \<longrightarrow> annual_row strategy f t c = None))"
proof -
  have n: "normalize_wage_unit u = (if unit_token u = [] then None else Some (unit_token u))"
    using assms by (rule normalize_unrecognized)
  have f: "wage_factor (normalize_wage_unit u) = None" if "unit_token u \<noteq> ''semimonthly''"
    using n that assms(3) by (simp add: factor_missing factor_unrecognized)
  have a: "annual_row strategy f t c = None" if "unit_token u \<noteq> ''semimonthly''" and "cell_val c = u"
    for c strategy f t
    using f that by (simp add: annual_row_def Let_def fmul_def guardrail_def split: option.splits)
  show ?thesis using n f a by blast
qed

text \<open>The theorem at the unit \<open>Fortnight\<close>.\<close>

lemma unit_token_fortnight: "unit_token (Str ''Fortnight'') = ''fortnight''"
  by code_simp

theorem unrecognized_unit_witness:
  "normalize_wage_unit (Str ''Fortnight'') = Some ''fortnight''
   \<and> wage_factor (normalize_wage_unit (Str ''Fortnight'')) = None
   \<and> annual_row ''from'' (Some 1000) None (Some ''Fortnight'') = None"
proof -
  have 1: "Str ''Fortnight'' \<noteq> PyNone" and 2: "Str ''Fortnight'' \<noteq> FloatNaN" by simp_all
  have 3: "unit_token (Str ''Fortnight'') \<notin> set recognized_units"
    by (simp add: unit_token_fortnight recognized_units_def)
  have 4: "unit_token (Str ''Fortnight'') \<noteq> ''semimonthly''" by (simp add: unit_token_fortnight)
  have 5: "cell_val (Some ''Fortnight'') = Str ''Fortnight''" by (simp add: cell_val_def)
  note r = unrecognized_unit [OF 1 2 3]
  from r have a: "normalize_wage_unit (Str ''Fortnight'') = Some ''fortnight''"
    by (simp add: unit_token_fortnight)
  from r 4 have b: "wage_factor (normalize_wage_unit (Str ''Fortnight'')) = None"
    by blast
  from r 4 5 have c: "annual_row ''from'' (Some 1000) None (Some ''Fortnight'') = None"
    by blast
  show ?thesis using a b c by blast
qed

text \<open>
  C6 as stated fails at \<open>semimonthly\<close>: \<open>normalize_wage_unit\<close> does not recognize it and
  passes it through, and \<open>WAGE_FACTORS\<close> has a multiplier for it, so the annual wage is
  present.
\<close>

theorem semimonthly_finds_multiplier:
  "unit_token (Str ''semimonthly'') \<notin> set recognized_units
   \<and> normalize_wage_unit (Str ''semimonthly'') = Some ''semimonthly''
   \<and> wage_factor (normalize_wage_unit (Str ''semimonthly'')) = Some 24
   \<and> annual_row ''from'' (Some 1000) None (Some ''semimonthly'') = Some 24000"
  by (simp add: unit_token_semimonthly recognized_units_def normalize_semimonthly factor_semimonthly
      annual_row_def cell_val_def base_value_def fmul_def guardrail_def)

section \<open>Base value\<close>

text \<open>
  C1. Under \<open>avg\<close> the base is the average when both rates are present. A row with only
  \<open>wage_rate_to\<close> present has no base under \<open>avg\<close>, while \<open>from\<close> and \<open>max\<close> use
  \<open>wage_rate_to\<close> there: the row (missing, 50, Hour) has no annual wage under \<open>avg\<close>
  and 104000 under \<open>from\<close>.
\<close>

theorem avg_only_to_is_missing:
  "base_value ''avg'' None (Some 50) = None
   \<and> compute_wage_annual [None] [Some 50] [Some ''Hour''] ''avg'' = [None]
   \<and> base_value ''from'' None (Some 50) = Some 50
   \<and> base_value ''max'' None (Some 50) = Some 50
   \<and> compute_wage_annual [None] [Some 50] [Some ''Hour''] ''from'' = [Some 104000]"
  by (simp add: compute_wage_annual_def annual_row_def cell_val_def normalize_hour factor_hour
      base_value_def fmul_def guardrail_def)

lemma avg_base_value:
  "base_value ''avg'' (Some a) (Some b) = Some ((a + b) / 2)
   \<and> base_value ''avg'' (Some a) None = Some a
   \<and> base_value ''avg'' None t = None"
  by (simp add: base_value_def)

section \<open>Guardrail\<close>








section \<open>Duplicate columns\<close>




lemma bfill_axis1_nonempty: "cs \<noteq> [] \<Longrightarrow> bfill_axis1 cs \<noteq> []"
  by (induction cs rule: bfill_axis1.induct) (simp_all add: Let_def)















lemma coalesce_nrows: "nrows (coalesce_duplicate_columns df) = nrows df"
  by (simp add: coalesce_duplicate_columns_def)

lemma rename_nrows: "nrows (rename_columns table df) = nrows df"
  by (simp add: rename_columns_def)


lemma mapped_nrows: "nrows (mapped_frame table df) = nrows df"
  by (simp add: mapped_frame_def coalesce_nrows rename_nrows)


section \<open>Record filter\<close>














section \<open>Coalescing\<close>

lemma select_label_renamed:
  "select_label target (cols (rename_columns table df))
     = map snd (filter (\<lambda>col. rename_label table (fst col) = target) (cols df))"
  by (simp add: select_label_def rename_columns_def filter_map comp_def)






section \<open>Annual wage bounds\<close>









end
